theory Spec2Isabelle
  imports Main "HOL-Library.Word"
begin

section \<open>Python values, exceptions and the JSON boundary\<close>

text \<open>
  The server (\<^verbatim>\<open>opengb/server.py\<close>) moves JSON documents between two queues, a cache
  of the printer's state and the connected websocket clients. The values it handles are
  the ones \<^verbatim>\<open>json.loads\<close> produces: \<^verbatim>\<open>None\<close>, booleans, integers, floats (kept as the 64
  bits of the double, never inspected), strings, lists and dicts keyed by strings. A dict
  is an association list in insertion order, read with \<open>map_of\<close>.
\<close>

datatype pyval =
    PNone
  | PBool bool
  | PInt int
  | PFloat "64 word"
  | PStr string
  | PList "pyval list"
  | PDict "(string \<times> pyval) list"

text \<open>The exceptions that the modelled statements can raise.\<close>

datatype exn = KeyError | TypeError | ValueError | WebSocketClosedError

text \<open>
  \<^verbatim>\<open>obj[key]\<close> with a string key: a dict raises \<^verbatim>\<open>KeyError\<close> when the key is absent; every
  other JSON value raises \<^verbatim>\<open>TypeError\<close> (a list or a string wants an integer index, the
  rest is not subscriptable).
\<close>

fun getitem :: "pyval \<Rightarrow> string \<Rightarrow> exn + pyval" where
  "getitem (PDict kvs) k = (case map_of kvs k of None \<Rightarrow> Inl KeyError | Some v \<Rightarrow> Inr v)"
| "getitem _ k = Inl TypeError"

text \<open>
  What travels on a queue. \<^verbatim>\<open>json.dumps\<close> and \<^verbatim>\<open>json.loads\<close> are library code; a JSON
  text is represented by the value it denotes. The items that \<^verbatim>\<open>json.loads\<close> rejects are
  of two kinds: a \<^verbatim>\<open>str\<close> that is no JSON document (it raises \<^verbatim>\<open>ValueError\<close>, of which
  \<^verbatim>\<open>json.JSONDecodeError\<close> is a subclass), and an object that is no text at all, such as
  \<^verbatim>\<open>None\<close> (it raises \<^verbatim>\<open>TypeError\<close>).
\<close>

datatype payload =
    JSONText pyval
  | NotJSON string
  | NotStr

definition json_dumps :: "pyval \<Rightarrow> payload" where
  "json_dumps v = JSONText v"

fun json_loads :: "payload \<Rightarrow> exn + pyval" where
  "json_loads (JSONText v) = Inr v"
| "json_loads (NotJSON t) = Inl ValueError"
| "json_loads NotStr = Inl TypeError"

section \<open>The state of the server\<close>

text \<open>
  \<^verbatim>\<open>PRINTER\<close>, the local cache of the printer's state: a dict with the three keys
  \<^verbatim>\<open>'state'\<close>, \<^verbatim>\<open>'temp'\<close> and \<^verbatim>\<open>'progress'\<close>. The class \<^verbatim>\<open>opengb.printer.State\<close> is not
  part of the sources at hand, so the type of its members is the parameter \<open>'st\<close>.
\<close>

record 'st printer =
  state :: 'st
  temp :: pyval
  progress :: pyval

text \<open>
  A websocket handler object, as far as the server uses it: the peer's address, whether
  the connection is still there (\<^verbatim>\<open>ws_connection is not None\<close>), and the messages
  written to it so far.
\<close>

record session =
  remote_ip :: string
  ws_connection :: bool
  written :: "pyval list"

text \<open>Calls of the logger, in the order they were made.\<close>

datatype log_call =
    LOG_info string string
  | LOG_error string pyval
  | LOG_log pyval pyval
  | LOG_exception exn

text \<open>
  The module's globals. \<^verbatim>\<open>CLIENTS\<close> is a list of references to handler objects: the
  references are natural numbers and \<open>sessions\<close> is the store they point into. A queue
  is the list of its items, oldest first.
\<close>

record 'st server =
  CLIENTS :: "nat list"
  sessions :: "nat \<Rightarrow> session"
  TO_PRINTER :: "payload list"
  FROM_PRINTER :: "payload list"
  PRINTER :: "'st printer"
  LOGGER :: "log_call list"

section \<open>MessageHandler\<close>

text \<open>
  A keyword argument that the caller may leave out: \<open>None\<close> is the omitted argument,
  which takes the default of the signature.
\<close>

definition kwarg :: "pyval option \<Rightarrow> pyval \<Rightarrow> pyval" where
  "kwarg a d = (case a of None \<Rightarrow> d | Some v \<Rightarrow> v)"

text \<open>
  \<^verbatim>\<open>set_temp(self, bed=None, nozzle1=None, nozzle2=None)\<close>: one message is put on
  \<^verbatim>\<open>TO_PRINTER\<close> and \<^verbatim>\<open>True\<close> is returned.
\<close>

definition set_temp ::
  "pyval option \<Rightarrow> pyval option \<Rightarrow> pyval option \<Rightarrow> 'st server \<Rightarrow> bool \<times> 'st server" where
  "set_temp bed nozzle1 nozzle2 s =
     (let bed' = kwarg bed PNone;
          nozzle1' = kwarg nozzle1 PNone;
          nozzle2' = kwarg nozzle2 PNone
      in (True,
          s\<lparr>TO_PRINTER := TO_PRINTER s @
              [json_dumps (PDict
                 [(''method'', PStr ''set_temp''),
                  (''params'', PDict
                     [(''bed'', bed'),
                      (''nozzle1'', nozzle1'),
                      (''nozzle2'', nozzle2')])])]\<rparr>))"

text \<open>The values Python counts as numbers (\<^verbatim>\<open>bool\<close> is a subclass of \<^verbatim>\<open>int\<close>).\<close>

fun is_number :: "pyval \<Rightarrow> bool" where
  "is_number (PInt i) = True"
| "is_number (PFloat f) = True"
| "is_number (PBool b) = True"
| "is_number _ = False"

section \<open>WebSocketHandler and the broadcast\<close>

text \<open>
  \<^verbatim>\<open>write_message\<close> is Tornado's: on a handler whose connection is gone it raises
  \<^verbatim>\<open>WebSocketClosedError\<close>, otherwise the message goes out to the peer.
\<close>

definition write_message :: "nat \<Rightarrow> pyval \<Rightarrow> 'st server \<Rightarrow> (exn + unit) \<times> 'st server" where
  "write_message c message s =
     (if ws_connection (sessions s c)
      then (Inr (),
            s\<lparr>sessions := (sessions s)
                 (c := (sessions s c)\<lparr>written := written (sessions s c) @ [message]\<rparr>)\<rparr>)
      else (Inl WebSocketClosedError, s))"

text \<open>
  \<^verbatim>\<open>on_close\<close>: the closing is logged, then \<^verbatim>\<open>CLIENTS.remove(self)\<close> takes the first
  occurrence of the handler out of the list and raises \<^verbatim>\<open>ValueError\<close> when there is none.
\<close>

definition on_close :: "nat \<Rightarrow> 'st server \<Rightarrow> (exn + unit) \<times> 'st server" where
  "on_close self s =
     (let s1 = s\<lparr>LOGGER := LOGGER s @
                   [LOG_info ''Connection closed to {0}'' (remote_ip (sessions s self))]\<rparr>
      in if self \<in> set (CLIENTS s1)
         then (Inr (), s1\<lparr>CLIENTS := remove1 self (CLIENTS s1)\<rparr>)
         else (Inl ValueError, s1))"

text \<open>
  The loop of \<^verbatim>\<open>broadcast_message\<close>: \<^verbatim>\<open>for each in CLIENTS: each.write_message(message)\<close>.
  Nothing catches what \<^verbatim>\<open>write_message\<close> raises, so the first failure ends the loop.
\<close>

fun write_each :: "nat list \<Rightarrow> pyval \<Rightarrow> 'st server \<Rightarrow> (exn + unit) \<times> 'st server" where
  "write_each [] message s = (Inr (), s)"
| "write_each (each # rest) message s =
     (case write_message each message s of
        (Inl e, s') \<Rightarrow> (Inl e, s')
      | (Inr u, s') \<Rightarrow> write_each rest message s')"

definition broadcast_message :: "pyval \<Rightarrow> 'st server \<Rightarrow> (exn + unit) \<times> 'st server" where
  "broadcast_message message s = write_each (CLIENTS s) message s"

section \<open>Events from the printer\<close>

text \<open>
  The body of the \<^verbatim>\<open>try\<close> in \<^verbatim>\<open>process_event\<close>. \<open>State\<close> is the call
  \<^verbatim>\<open>opengb.printer.State(value)\<close>, a parameter: it gives a member or raises. Python
  evaluates \<^verbatim>\<open>event['method']\<close> again in every \<^verbatim>\<open>elif\<close>; the lookup has no effect and
  gives the same value each time, so it is read once here. The right-hand side of an
  assignment is evaluated before \<^verbatim>\<open>PRINTER\<close> is changed.
\<close>

definition process_event_try ::
  "(pyval \<Rightarrow> exn + 'st) \<Rightarrow> pyval \<Rightarrow> 'st server \<Rightarrow> (exn + unit) \<times> 'st server" where
  "process_event_try State event s =
     (case getitem event ''method'' of
        Inl e \<Rightarrow> (Inl e, s)
      | Inr m \<Rightarrow>
          if m = PStr ''state'' then
            (case getitem event ''params'' of
               Inl e \<Rightarrow> (Inl e, s)
             | Inr p \<Rightarrow>
                 (case getitem p ''new'' of
                    Inl e \<Rightarrow> (Inl e, s)
                  | Inr v \<Rightarrow>
                      (case State v of
                         Inl e \<Rightarrow> (Inl e, s)
                       | Inr st \<Rightarrow> (Inr (), s\<lparr>PRINTER := (PRINTER s)\<lparr>state := st\<rparr>\<rparr>))))
          else if m = PStr ''temp'' then
            (case getitem event ''params'' of
               Inl e \<Rightarrow> (Inl e, s)
             | Inr p \<Rightarrow> (Inr (), s\<lparr>PRINTER := (PRINTER s)\<lparr>temp := p\<rparr>\<rparr>))
          else if m = PStr ''progress'' then
            (case getitem event ''params'' of
               Inl e \<Rightarrow> (Inl e, s)
             | Inr p \<Rightarrow> (Inr (), s\<lparr>PRINTER := (PRINTER s)\<lparr>progress := p\<rparr>\<rparr>))
          else if m = PStr ''zchange'' then (Inr (), s)
          else (Inr (), s))"

text \<open>
  The clause \<^verbatim>\<open>except KeyError\<close> of \<^verbatim>\<open>process_event\<close>: a \<^verbatim>\<open>KeyError\<close> is answered by
  one call of \<^verbatim>\<open>LOGGER.error\<close> with the event formatted into the message, and the
  function returns. Any other exception passes through.
\<close>

definition except_KeyError ::
  "pyval \<Rightarrow> (exn + unit) \<times> 'st server \<Rightarrow> (exn + unit) \<times> 'st server" where
  "except_KeyError event rs =
     (case rs of
        (r, s') \<Rightarrow>
          if r = Inl KeyError
          then (Inr (), s'\<lparr>LOGGER := LOGGER s' @
                  [LOG_error ''Malformed event from printer: {0}'' event]\<rparr>)
          else (r, s'))"

definition process_event ::
  "(pyval \<Rightarrow> exn + 'st) \<Rightarrow> pyval \<Rightarrow> 'st server \<Rightarrow> (exn + unit) \<times> 'st server" where
  "process_event State event s = except_KeyError event (process_event_try State event s)"

text \<open>
  \<^verbatim>\<open>LOGGER.log(level, msg)\<close> of the standard library raises \<^verbatim>\<open>TypeError\<close> when the level
  is not an integer.
\<close>

definition LOGGER_log :: "pyval \<Rightarrow> pyval \<Rightarrow> 'st server \<Rightarrow> (exn + unit) \<times> 'st server" where
  "LOGGER_log level msg s =
     (case level of
        PInt i \<Rightarrow> (Inr (), s\<lparr>LOGGER := LOGGER s @ [LOG_log level msg]\<rparr>)
      | PBool b \<Rightarrow> (Inr (), s\<lparr>LOGGER := LOGGER s @ [LOG_log level msg]\<rparr>)
      | _ \<Rightarrow> (Inl TypeError, s))"

text \<open>
  The body of the \<^verbatim>\<open>try\<close> in \<^verbatim>\<open>process_printer_events\<close>, entered with the item that
  \<^verbatim>\<open>FROM_PRINTER.get()\<close> took off the queue.
\<close>

definition process_printer_events_try ::
  "(pyval \<Rightarrow> exn + 'st) \<Rightarrow> payload \<Rightarrow> 'st server \<Rightarrow> (exn + unit) \<times> 'st server" where
  "process_printer_events_try State item s =
     (case json_loads item of
        Inl e \<Rightarrow> (Inl e, s)
      | Inr event \<Rightarrow>
          (case getitem event ''method'' of
             Inl e \<Rightarrow> (Inl e, s)
           | Inr m \<Rightarrow>
               if m = PStr ''log'' then
                 (case getitem event ''params'' of
                    Inl e \<Rightarrow> (Inl e, s)
                  | Inr p \<Rightarrow>
                      (case getitem p ''level'' of
                         Inl e \<Rightarrow> (Inl e, s)
                       | Inr level \<Rightarrow>
                           (case getitem event ''params'' of
                              Inl e \<Rightarrow> (Inl e, s)
                            | Inr p' \<Rightarrow>
                                (case getitem p' ''msg'' of
                                   Inl e \<Rightarrow> (Inl e, s)
                                 | Inr msg \<Rightarrow> LOGGER_log level msg s))))
               else
                 (case broadcast_message event s of
                    (Inl e, s') \<Rightarrow> (Inl e, s')
                  | (Inr u, s') \<Rightarrow> process_event State event s')))"

text \<open>
  The clause \<^verbatim>\<open>except TypeError as e: LOGGER.exception(e)\<close> of
  \<^verbatim>\<open>process_printer_events\<close>.
\<close>

definition except_TypeError ::
  "(exn + unit) \<times> 'st server \<Rightarrow> (exn + unit) \<times> 'st server" where
  "except_TypeError rs =
     (case rs of
        (r, s') \<Rightarrow>
          if r = Inl TypeError
          then (Inr (), s'\<lparr>LOGGER := LOGGER s' @ [LOG_exception TypeError]\<rparr>)
          else (r, s'))"

text \<open>
  \<^verbatim>\<open>process_printer_events\<close>, one run of the periodic callback: nothing happens on an
  empty queue; otherwise \<^verbatim>\<open>FROM_PRINTER.get()\<close> takes one item, which is handled under
  the \<^verbatim>\<open>except TypeError\<close> clause.
\<close>

definition process_printer_events ::
  "(pyval \<Rightarrow> exn + 'st) \<Rightarrow> 'st server \<Rightarrow> (exn + unit) \<times> 'st server" where
  "process_printer_events State s =
     (case FROM_PRINTER s of
        [] \<Rightarrow> (Inr (), s)
      | item # rest \<Rightarrow>
          except_TypeError
            (process_printer_events_try State item (s\<lparr>FROM_PRINTER := rest\<rparr>)))"

text \<open>
  A sequence of events handed to \<^verbatim>\<open>process_event\<close> one call after the other. A call
  that raises ends there; the cache is what that call left, and the next call goes on
  from it.
\<close>

fun process_events ::
  "(pyval \<Rightarrow> exn + 'st) \<Rightarrow> pyval list \<Rightarrow> 'st server \<Rightarrow> 'st server" where
  "process_events State [] s = s"
| "process_events State (event # events) s =
     process_events State events (snd (process_event State event s))"

section \<open>The State enum and sample states\<close>

text \<open>
  Modelled from the spec: \<^verbatim>\<open>opengb.printer.State\<close>, whose module \<^verbatim>\<open>opengb/printer.py\<close> is
  not among the sources. The specification's data model names the members DISCONNECTED,
  READY, PRINTING, PAUSED and ERROR, and its end-to-end example parses \<^verbatim>\<open>"printing"\<close>
  into PRINTING: a member's value is its name in lower case. Calling a Python enum
  with a value that no member has raises \<^verbatim>\<open>ValueError\<close>.
\<close>

datatype State = DISCONNECTED | READY | PRINTING | PAUSED | ERROR

fun State_call :: "pyval \<Rightarrow> exn + State" where
  "State_call (PStr x) =
     (if x = ''disconnected'' then Inr DISCONNECTED
      else if x = ''ready'' then Inr READY
      else if x = ''printing'' then Inr PRINTING
      else if x = ''paused'' then Inr PAUSED
      else if x = ''error'' then Inr ERROR
      else Inl ValueError)"
| "State_call _ = Inl ValueError"

text \<open>The globals as the module sets them when it is loaded.\<close>

definition PRINTER_init :: "State printer" where
  "PRINTER_init =
     \<lparr>state = DISCONNECTED,
      temp = PDict [(''bed'', PInt 0), (''nozzle1'', PInt 0), (''nozzle2'', PInt 0)],
      progress = PDict [(''current'', PInt 0), (''total'', PInt 0)]\<rparr>"

definition peer :: "string \<Rightarrow> bool \<Rightarrow> session" where
  "peer ip up = \<lparr>remote_ip = ip, ws_connection = up, written = []\<rparr>"

definition server_init :: "State server" where
  "server_init =
     \<lparr>CLIENTS = [], sessions = (\<lambda>c. peer [] False),
      TO_PRINTER = [], FROM_PRINTER = [],
      PRINTER = PRINTER_init, LOGGER = []\<rparr>"

text \<open>Two clients, both connected; and two clients of which the first has lost its
  connection while still being in \<^verbatim>\<open>CLIENTS\<close>.\<close>

definition clients_up :: "State server" where
  "clients_up = server_init\<lparr>CLIENTS := [0, 1], sessions := (\<lambda>c. peer ''10.0.0.7'' True)\<rparr>"

definition clients_first_down :: "State server" where
  "clients_first_down =
     server_init\<lparr>CLIENTS := [0, 1], sessions := (\<lambda>c. peer ''10.0.0.7'' (c \<noteq> 0))\<rparr>"

text \<open>Sample events.\<close>

definition zchange_event :: pyval where
  "zchange_event = PDict [(''method'', PStr ''zchange''), (''params'', PDict [])]"

definition temp_event :: pyval where
  "temp_event = PDict [(''method'', PStr ''temp''),
     (''params'', PDict [(''bed'', PInt 60), (''nozzle1'', PInt 0), (''nozzle2'', PInt 0)])]"

definition progress_event :: pyval where
  "progress_event = PDict [(''method'', PStr ''progress''),
     (''params'', PDict [(''current'', PInt 7), (''total'', PInt 40)])]"

definition state_event_without_new :: pyval where
  "state_event_without_new = PDict [(''method'', PStr ''state''), (''params'', PDict [])]"

definition temp_event_without_bed :: pyval where
  "temp_event_without_bed = PDict [(''method'', PStr ''temp''),
     (''params'', PDict [(''nozzle1'', PInt 200), (''nozzle2'', PInt 0)])]"

definition bad_state_event :: pyval where
  "bad_state_event = PDict [(''method'', PStr ''state''),
     (''params'', PDict [(''new'', PStr ''melting'')])]"

definition log_event :: pyval where
  "log_event = PDict [(''method'', PStr ''log''),
     (''params'', PDict [(''level'', PInt 20), (''msg'', PStr ''heating'')])]"

definition overrun_progress_event :: pyval where
  "overrun_progress_event = PDict [(''method'', PStr ''progress''),
     (''params'', PDict [(''current'', PInt 5), (''total'', PInt 3)])]"

text \<open>
  The invariant that the specification states for the progress counters, read on the
  value that the cache holds under \<^verbatim>\<open>'progress'\<close>: when \<^verbatim>\<open>total\<close> and \<^verbatim>\<open>current\<close> are
  integers and \<^verbatim>\<open>total\<close> is positive, \<^verbatim>\<open>current\<close> is at most \<^verbatim>\<open>total\<close>. A value without
  integer counters has nothing to compare.
\<close>

definition progress_inv :: "pyval \<Rightarrow> bool" where
  "progress_inv p =
     (case getitem p ''total'' of
        Inr (PInt t) \<Rightarrow>
          (case getitem p ''current'' of
             Inr (PInt c) \<Rightarrow> 0 < t \<longrightarrow> c \<le> t
           | _ \<Rightarrow> True)
      | _ \<Rightarrow> True)"

text \<open>A \<^verbatim>\<open>temp\<close> event waiting on the queue, for each of the two sets of clients.\<close>

definition tick_clients_up :: "State server" where
  "tick_clients_up = clients_up\<lparr>FROM_PRINTER := [JSONText temp_event]\<rparr>"

definition tick_first_down :: "State server" where
  "tick_first_down = clients_first_down\<lparr>FROM_PRINTER := [JSONText temp_event]\<rparr>"

section \<open>The loop of the broadcast\<close>

text \<open>
  What the loop over \<^verbatim>\<open>CLIENTS\<close> does, in closed form: it returns when every handler
  in the list is connected and raises otherwise, and a handler has been written to once
  for each of its occurrences before the first handler that is not connected.
\<close>

lemma write_each_char:
  "write_each cs m s =
     (if list_all (\<lambda>c. ws_connection (sessions s c)) cs
      then Inr () else Inl WebSocketClosedError,
      s\<lparr>sessions := \<lambda>d. (sessions s d)\<lparr>written := written (sessions s d) @
          replicate (count_list (takeWhile (\<lambda>c. ws_connection (sessions s c)) cs) d) m\<rparr>\<rparr>)"
proof (induction cs arbitrary: s)
  case Nil
  show ?case by simp
next
  case (Cons c cs)
  show ?case
  proof (cases "ws_connection (sessions s c)")
    case False
    then show ?thesis by (simp add: write_message_def)
  next
    case True
    define P where "P = (\<lambda>x. ws_connection (sessions s x))"
    define s1 where "s1 = s\<lparr>sessions := (sessions s)
                 (c := (sessions s c)\<lparr>written := written (sessions s c) @ [m]\<rparr>)\<rparr>"
    have Pc: "P c" using True by (simp add: P_def)
    have w: "write_message c m s = (Inr (), s1)"
      using True by (simp add: write_message_def s1_def)
    have up: "(\<lambda>x. ws_connection (sessions s1 x)) = P"
      by (rule ext) (simp add: s1_def P_def)
    have ih: "write_each cs m s1 =
      (if list_all P cs then Inr () else Inl WebSocketClosedError,
       s1\<lparr>sessions := \<lambda>d. (sessions s1 d)\<lparr>written := written (sessions s1 d) @
          replicate (count_list (takeWhile P cs) d) m\<rparr>\<rparr>)"
      using Cons.IH [of s1] unfolding up .
    have st: "s1\<lparr>sessions := \<lambda>d. (sessions s1 d)\<lparr>written := written (sessions s1 d) @
          replicate (count_list (takeWhile P cs) d) m\<rparr>\<rparr>
        = s\<lparr>sessions := \<lambda>d. (sessions s d)\<lparr>written := written (sessions s d) @
          replicate (count_list (takeWhile P (c # cs)) d) m\<rparr>\<rparr>"
      using Pc by (simp add: s1_def fun_eq_iff replicate_app_Cons_same)
    have "write_each (c # cs) m s = write_each cs m s1"
      using w by simp
    also note ih
    also note st
    finally have "write_each (c # cs) m s =
      (if list_all P cs then Inr () else Inl WebSocketClosedError,
       s\<lparr>sessions := \<lambda>d. (sessions s d)\<lparr>written := written (sessions s d) @
          replicate (count_list (takeWhile P (c # cs)) d) m\<rparr>\<rparr>)" .
    moreover have "list_all P (c # cs) = list_all P cs" using Pc by simp
    ultimately show ?thesis unfolding P_def by simp
  qed
qed

lemma broadcast_message_char:
  "broadcast_message m s =
     (if list_all (\<lambda>c. ws_connection (sessions s c)) (CLIENTS s)
      then Inr () else Inl WebSocketClosedError,
      s\<lparr>sessions := \<lambda>d. (sessions s d)\<lparr>written := written (sessions s d) @
          replicate (count_list (takeWhile (\<lambda>c. ws_connection (sessions s c)) (CLIENTS s)) d) m\<rparr>\<rparr>)"
  unfolding broadcast_message_def by (rule write_each_char)

text \<open>The broadcast touches nothing but the handlers' connections.\<close>

lemma broadcast_message_frame:
  "CLIENTS (snd (broadcast_message m s)) = CLIENTS s"
  "PRINTER (snd (broadcast_message m s)) = PRINTER s"
  "LOGGER (snd (broadcast_message m s)) = LOGGER s"
  "FROM_PRINTER (snd (broadcast_message m s)) = FROM_PRINTER s"
  "TO_PRINTER (snd (broadcast_message m s)) = TO_PRINTER s"
  by (simp_all add: broadcast_message_char)

lemma broadcast_message_outcome:
  "fst (broadcast_message m s) =
     (if \<forall>c \<in> set (CLIENTS s). ws_connection (sessions s c)
      then Inr () else Inl WebSocketClosedError)"
  by (simp add: broadcast_message_char list_all_iff)

lemma broadcast_message_up_result:
  assumes "\<forall>c \<in> set (CLIENTS s). ws_connection (sessions s c)"
  shows "broadcast_message m s = (Inr (), snd (broadcast_message m s))"
  using assms broadcast_message_outcome [of m s] by (simp add: prod_eq_iff)

lemma broadcast_message_all_up:
  assumes "\<forall>c \<in> set (CLIENTS s). ws_connection (sessions s c)"
  shows "written (sessions (snd (broadcast_message m s)) d) =
           written (sessions s d) @ replicate (count_list (CLIENTS s) d) m"
proof -
  have tw: "takeWhile (\<lambda>c. ws_connection (sessions s c)) (CLIENTS s) = CLIENTS s"
    using assms by (simp add: takeWhile_eq_all_conv)
  show ?thesis by (simp add: broadcast_message_char tw)
qed

lemma broadcast_message_first_down:
  assumes "CLIENTS s = pre @ c # post"
    and "\<forall>d \<in> set pre. ws_connection (sessions s d)"
    and "\<not> ws_connection (sessions s c)"
  shows "written (sessions (snd (broadcast_message m s)) d) =
           written (sessions s d) @ replicate (count_list pre d) m"
proof -
  have tw: "takeWhile (\<lambda>c. ws_connection (sessions s c)) (pre @ c # post) = pre"
    using assms(2,3) by (simp add: takeWhile_append2)
  show ?thesis by (simp add: broadcast_message_char assms(1) tw)
qed

section \<open>The command dispatcher\<close>

text \<open>
  C1. Every call of \<open>set_temp\<close> returns \<^verbatim>\<open>True\<close> and appends one message to the outbound
  queue and changes nothing else. The message is the object with \<^verbatim>\<open>method\<close> equal to
  \<^verbatim>\<open>"set_temp"\<close> and \<^verbatim>\<open>params\<close> holding \<^verbatim>\<open>bed\<close>, \<^verbatim>\<open>nozzle1\<close> and \<^verbatim>\<open>nozzle2\<close>: a
  temperature that was given appears as given, one that was left out appears as
  \<^verbatim>\<open>None\<close> (JSON \<^verbatim>\<open>null\<close>), which is not a number.
\<close>

theorem set_temp_emits:
  "set_temp bed nozzle1 nozzle2 s =
     (True,
      s\<lparr>TO_PRINTER := TO_PRINTER s @
          [JSONText (PDict
             [(''method'', PStr ''set_temp''),
              (''params'', PDict
                 [(''bed'', case bed of None \<Rightarrow> PNone | Some v \<Rightarrow> v),
                  (''nozzle1'', case nozzle1 of None \<Rightarrow> PNone | Some v \<Rightarrow> v),
                  (''nozzle2'', case nozzle2 of None \<Rightarrow> PNone | Some v \<Rightarrow> v)])])]\<rparr>)
   \<and> \<not> is_number PNone"
  by (simp add: set_temp_def kwarg_def json_dumps_def)

section \<open>The state reducer\<close>

text \<open>
  C2, as the code has it. A \<^verbatim>\<open>state\<close> event whose \<^verbatim>\<open>params\<close> is a mapping without the key
  \<^verbatim>\<open>new\<close> does not make \<open>process_event\<close> raise: the call returns, exactly one
  diagnostic carrying the raw event is logged, and nothing else changes, the cache of
  the printer's state included.
\<close>

theorem process_event_state_without_new:
  assumes "getitem event ''method'' = Inr (PStr ''state'')"
    and "getitem event ''params'' = Inr p"
    and "getitem p ''new'' = Inl KeyError"
  shows "process_event State event s =
           (Inr (), s\<lparr>LOGGER := LOGGER s @
              [LOG_error ''Malformed event from printer: {0}'' event]\<rparr>)"
  using assms by (simp add: process_event_def process_event_try_def except_KeyError_def)

text \<open>C2, witness: the \<^verbatim>\<open>state\<close> event with empty \<^verbatim>\<open>params\<close>, on the initial state.\<close>

theorem process_event_state_without_new_witness:
  "getitem state_event_without_new ''method'' = Inr (PStr ''state'')
   \<and> getitem state_event_without_new ''params'' = Inr (PDict [])
   \<and> getitem (PDict []) ''new'' = Inl KeyError
   \<and> process_event State_call state_event_without_new server_init =
       (Inr (), server_init\<lparr>LOGGER :=
          [LOG_error ''Malformed event from printer: {0}'' state_event_without_new]\<rparr>)"
  using process_event_state_without_new
    [of state_event_without_new "PDict []" State_call server_init]
  by (simp add: state_event_without_new_def server_init_def)

text \<open>
  C2, counterexample to the claim for every event: a \<^verbatim>\<open>temp\<close> event whose \<^verbatim>\<open>params\<close>
  lacks \<^verbatim>\<open>bed\<close>. No diagnostic is recorded and the cache is changed.
\<close>

theorem process_event_missing_key_counterexample:
  "getitem temp_event_without_bed ''params'' =
      Inr (PDict [(''nozzle1'', PInt 200), (''nozzle2'', PInt 0)])
   \<and> getitem (PDict [(''nozzle1'', PInt 200), (''nozzle2'', PInt 0)]) ''bed'' = Inl KeyError
   \<and> LOGGER (snd (process_event State_call temp_event_without_bed server_init)) =
       LOGGER server_init
   \<and> PRINTER (snd (process_event State_call temp_event_without_bed server_init)) \<noteq>
       PRINTER server_init"
  by (simp add: temp_event_without_bed_def process_event_def process_event_try_def
      except_KeyError_def server_init_def PRINTER_init_def)

text \<open>
  C3, what the code does. A \<^verbatim>\<open>state\<close> event whose \<^verbatim>\<open>params.new\<close> is a value for which the
  enum raises \<^verbatim>\<open>ValueError\<close> makes \<open>process_event\<close> raise that \<^verbatim>\<open>ValueError\<close>;
  nothing is logged and the state is as before. When the event comes off the queue and
  all clients are connected, the exception leaves \<open>process_printer_events\<close> too.
\<close>

theorem process_event_bad_state_value:
  assumes "getitem event ''method'' = Inr (PStr ''state'')"
    and "getitem event ''params'' = Inr p"
    and "getitem p ''new'' = Inr v"
    and "State v = Inl ValueError"
  shows "process_event State event s = (Inl ValueError, s)
     \<and> (FROM_PRINTER s = JSONText event # rest \<and>
          (\<forall>c \<in> set (CLIENTS s). ws_connection (sessions s c)) \<longrightarrow>
        fst (process_printer_events State s) = Inl ValueError \<and>
        PRINTER (snd (process_printer_events State s)) = PRINTER s \<and>
        LOGGER (snd (process_printer_events State s)) = LOGGER s)"
proof (intro conjI impI)
  show pe: "process_event State event s = (Inl ValueError, s)" for s :: "'a server"
    using assms by (simp add: process_event_def process_event_try_def except_KeyError_def)
  assume h: "FROM_PRINTER s = JSONText event # rest \<and>
          (\<forall>c \<in> set (CLIENTS s). ws_connection (sessions s c))"
  define s1 where "s1 = s\<lparr>FROM_PRINTER := rest\<rparr>"
  obtain s2 where b: "broadcast_message event s1 = (Inr (), s2)"
    using h broadcast_message_up_result [of s1 event] by (simp add: s1_def)
  have "s2 = snd (broadcast_message event s1)" by (simp add: b)
  then have fr: "PRINTER s2 = PRINTER s" "LOGGER s2 = LOGGER s"
    by (simp_all add: broadcast_message_frame s1_def)
  have "process_printer_events_try State (JSONText event) s1 = (Inl ValueError, s2)"
    using assms(1) by (simp add: process_printer_events_try_def b pe)
  then have t: "process_printer_events State s = (Inl ValueError, s2)"
    using h by (simp add: process_printer_events_def except_TypeError_def s1_def)
  show "fst (process_printer_events State s) = Inl ValueError" by (simp add: t)
  show "PRINTER (snd (process_printer_events State s)) = PRINTER s" by (simp add: t fr)
  show "LOGGER (snd (process_printer_events State s)) = LOGGER s" by (simp add: t fr)
qed

text \<open>
  C3, witness: the event \<^verbatim>\<open>{"method": "state", "params": {"new": "melting"}}\<close> with two
  connected clients.
\<close>

theorem process_event_bad_state_value_witness:
  "getitem bad_state_event ''method'' = Inr (PStr ''state'')
   \<and> getitem bad_state_event ''params'' = Inr (PDict [(''new'', PStr ''melting'')])
   \<and> getitem (PDict [(''new'', PStr ''melting'')]) ''new'' = Inr (PStr ''melting'')
   \<and> State_call (PStr ''melting'') = Inl ValueError
   \<and> process_event State_call bad_state_event clients_up = (Inl ValueError, clients_up)
   \<and> fst (process_printer_events State_call
            (clients_up\<lparr>FROM_PRINTER := [JSONText bad_state_event]\<rparr>)) = Inl ValueError
   \<and> LOGGER (snd (process_printer_events State_call
            (clients_up\<lparr>FROM_PRINTER := [JSONText bad_state_event]\<rparr>))) = []"
  using process_event_bad_state_value [of bad_state_event "PDict [(''new'', PStr ''melting'')]"
      "PStr ''melting''" State_call clients_up]
    process_event_bad_state_value [of bad_state_event "PDict [(''new'', PStr ''melting'')]"
      "PStr ''melting''" State_call "clients_up\<lparr>FROM_PRINTER := [JSONText bad_state_event]\<rparr>" "[]"]
  by (simp add: bad_state_event_def clients_up_def server_init_def peer_def)

text \<open>
  C6. For an event that carries \<^verbatim>\<open>params\<close>: when its method is \<^verbatim>\<open>temp\<close> the call returns
  and the field \<^verbatim>\<open>temp\<close> of the cache is the event's \<^verbatim>\<open>params\<close>, whatever it held
  before; when its method is \<^verbatim>\<open>progress\<close> the same holds of the field \<^verbatim>\<open>progress\<close>. All
  other fields, and everything outside the cache, are as before.
\<close>

theorem process_event_replaces:
  assumes "getitem event ''params'' = Inr p"
  shows "(getitem event ''method'' = Inr (PStr ''temp'') \<longrightarrow>
            process_event State event s = (Inr (), s\<lparr>PRINTER := (PRINTER s)\<lparr>temp := p\<rparr>\<rparr>))
       \<and> (getitem event ''method'' = Inr (PStr ''progress'') \<longrightarrow>
            process_event State event s = (Inr (), s\<lparr>PRINTER := (PRINTER s)\<lparr>progress := p\<rparr>\<rparr>))"
  using assms by (simp add: process_event_def process_event_try_def except_KeyError_def)

text \<open>C6, witness: a \<^verbatim>\<open>temp\<close> event and a \<^verbatim>\<open>progress\<close> event on the initial state.\<close>

theorem process_event_replaces_witness:
  "getitem temp_event ''params'' =
     Inr (PDict [(''bed'', PInt 60), (''nozzle1'', PInt 0), (''nozzle2'', PInt 0)])
   \<and> getitem temp_event ''method'' = Inr (PStr ''temp'')
   \<and> process_event State_call temp_event server_init =
       (Inr (), server_init\<lparr>PRINTER := (PRINTER server_init)
          \<lparr>temp := PDict [(''bed'', PInt 60), (''nozzle1'', PInt 0), (''nozzle2'', PInt 0)]\<rparr>\<rparr>)
   \<and> getitem progress_event ''method'' = Inr (PStr ''progress'')
   \<and> process_event State_call progress_event server_init =
       (Inr (), server_init\<lparr>PRINTER := (PRINTER server_init)
          \<lparr>progress := PDict [(''current'', PInt 7), (''total'', PInt 40)]\<rparr>\<rparr>)"
  using process_event_replaces [of temp_event
      "PDict [(''bed'', PInt 60), (''nozzle1'', PInt 0), (''nozzle2'', PInt 0)]"
      State_call server_init]
    process_event_replaces [of progress_event
      "PDict [(''current'', PInt 7), (''total'', PInt 40)]" State_call server_init]
  by (simp add: temp_event_def progress_event_def)

text \<open>
  C10. An event whose method is none of \<^verbatim>\<open>state\<close>, \<^verbatim>\<open>temp\<close> and \<^verbatim>\<open>progress\<close> (so
  \<^verbatim>\<open>zchange\<close>, and any method the reducer does not know) makes \<open>process_event\<close> return
  with the whole state unchanged: the three fields of the cache, and everything else.
\<close>

theorem process_event_other_method:
  assumes "getitem event ''method'' = Inr m"
    and "m \<noteq> PStr ''state''" and "m \<noteq> PStr ''temp''" and "m \<noteq> PStr ''progress''"
  shows "process_event State event s = (Inr (), s)"
  using assms by (simp add: process_event_def process_event_try_def except_KeyError_def)

text \<open>C10, witness: a \<^verbatim>\<open>zchange\<close> event on the initial state.\<close>

theorem process_event_other_method_witness:
  "getitem zchange_event ''method'' = Inr (PStr ''zchange'')
   \<and> PStr ''zchange'' \<noteq> PStr ''state'' \<and> PStr ''zchange'' \<noteq> PStr ''temp''
   \<and> PStr ''zchange'' \<noteq> PStr ''progress''
   \<and> process_event State_call zchange_event server_init = (Inr (), server_init)"
  using process_event_other_method [of zchange_event "PStr ''zchange''" State_call server_init]
  by (simp add: zchange_event_def)

section \<open>The poll loop\<close>

text \<open>
  C4, what the code does. When the item at the head of the inbound queue is a text that
  is not JSON, \<open>process_printer_events\<close> takes it off the queue and the
  \<^verbatim>\<open>ValueError\<close> of \<^verbatim>\<open>json.loads\<close> leaves the call: the handler is for \<^verbatim>\<open>TypeError\<close> only.
  Nothing is logged; the cache and the clients are as before.
\<close>

theorem process_printer_events_not_json:
  assumes "FROM_PRINTER s = NotJSON t # rest"
  shows "process_printer_events State s = (Inl ValueError, s\<lparr>FROM_PRINTER := rest\<rparr>)"
  using assms
  by (simp add: process_printer_events_def process_printer_events_try_def except_TypeError_def)

text \<open>C4, witness: the one-character line \<^verbatim>\<open>{\<close> on the queue of the initial state.\<close>

theorem process_printer_events_not_json_witness:
  "FROM_PRINTER (server_init\<lparr>FROM_PRINTER := [NotJSON ''{'']\<rparr>) = NotJSON ''{'' # []
   \<and> process_printer_events State_call (server_init\<lparr>FROM_PRINTER := [NotJSON ''{'']\<rparr>) =
       (Inl ValueError, server_init)"
  using process_printer_events_not_json
    [of "server_init\<lparr>FROM_PRINTER := [NotJSON ''{'']\<rparr>" "''{''" "[]" State_call]
  by (simp add: server_init_def)

section \<open>The broadcast hub\<close>

text \<open>
  C7, as the code has it. The broadcast never changes the registry. When every
  registered session is connected it returns, and each session has received the message
  (once for each time it is registered). When a registered session is not connected,
  \<^verbatim>\<open>WebSocketClosedError\<close> leaves the broadcast at the first such session: the sessions
  before it in the registry have received the message, the others have not.
\<close>

theorem broadcast_message_delivery:
  "CLIENTS (snd (broadcast_message m s)) = CLIENTS s
   \<and> ((\<forall>c \<in> set (CLIENTS s). ws_connection (sessions s c)) \<longrightarrow>
        fst (broadcast_message m s) = Inr () \<and>
        (\<forall>d. written (sessions (snd (broadcast_message m s)) d) =
               written (sessions s d) @ replicate (count_list (CLIENTS s) d) m))
   \<and> (CLIENTS s = pre @ c # post \<and> (\<forall>d \<in> set pre. ws_connection (sessions s d))
        \<and> \<not> ws_connection (sessions s c) \<longrightarrow>
        fst (broadcast_message m s) = Inl WebSocketClosedError \<and>
        (\<forall>d. written (sessions (snd (broadcast_message m s)) d) =
               written (sessions s d) @ replicate (count_list pre d) m))"
proof (intro conjI impI allI)
  show "CLIENTS (snd (broadcast_message m s)) = CLIENTS s"
    by (rule broadcast_message_frame)
next
  assume up: "\<forall>c \<in> set (CLIENTS s). ws_connection (sessions s c)"
  then show "fst (broadcast_message m s) = Inr ()"
    by (simp add: broadcast_message_outcome)
  fix d
  show "written (sessions (snd (broadcast_message m s)) d) =
          written (sessions s d) @ replicate (count_list (CLIENTS s) d) m"
    using up by (rule broadcast_message_all_up)
next
  assume h: "CLIENTS s = pre @ c # post \<and> (\<forall>d \<in> set pre. ws_connection (sessions s d))
        \<and> \<not> ws_connection (sessions s c)"
  then show "fst (broadcast_message m s) = Inl WebSocketClosedError"
    by (auto simp add: broadcast_message_outcome)
  fix d
  show "written (sessions (snd (broadcast_message m s)) d) =
          written (sessions s d) @ replicate (count_list pre d) m"
    using h by (intro broadcast_message_first_down) auto
qed

text \<open>
  C7, witness: two connected clients both receive the event; with the first client
  disconnected the broadcast raises and the second receives nothing.
\<close>

theorem broadcast_message_delivery_witness:
  "CLIENTS clients_up = [0, 1]
   \<and> ws_connection (sessions clients_up 0) \<and> ws_connection (sessions clients_up 1)
   \<and> fst (broadcast_message temp_event clients_up) = Inr ()
   \<and> written (sessions (snd (broadcast_message temp_event clients_up)) 1) = [temp_event]
   \<and> CLIENTS clients_first_down = [] @ 0 # [1]
   \<and> \<not> ws_connection (sessions clients_first_down 0)
   \<and> fst (broadcast_message temp_event clients_first_down) = Inl WebSocketClosedError
   \<and> written (sessions (snd (broadcast_message temp_event clients_first_down)) 1) = []"
  using broadcast_message_delivery [of temp_event clients_up]
    broadcast_message_delivery [of temp_event clients_first_down "[]" 0 "[1]"]
  by (simp add: clients_up_def clients_first_down_def server_init_def peer_def)

text \<open>
  C7, counterexample to the claim: client 1 is registered and connected, the send to
  client 0 fails, the exception leaves the broadcast and client 1 receives nothing.
\<close>

theorem broadcast_message_counterexample:
  "ws_connection (sessions clients_first_down 1)
   \<and> 1 \<in> set (CLIENTS clients_first_down)
   \<and> fst (broadcast_message temp_event clients_first_down) = Inl WebSocketClosedError
   \<and> written (sessions (snd (broadcast_message temp_event clients_first_down)) 1) = []"
  by (simp add: broadcast_message_def write_message_def clients_first_down_def
      server_init_def peer_def)

text \<open>
  C8, as the code has it. For a session that is registered once, the first \<open>on_close\<close>
  returns and removes it from the registry; the second \<open>on_close\<close> raises
  \<^verbatim>\<open>ValueError\<close>, and apart from the line it logs it changes nothing: the registry and
  the other sessions are as the first call left them.
\<close>

theorem on_close_twice:
  assumes "self \<in> set (CLIENTS s)" and "distinct (CLIENTS s)"
  shows "fst (on_close self s) = Inr ()
     \<and> CLIENTS (snd (on_close self s)) = remove1 self (CLIENTS s)
     \<and> on_close self (snd (on_close self s)) =
         (Inl ValueError,
          (snd (on_close self s))\<lparr>LOGGER := LOGGER (snd (on_close self s)) @
             [LOG_info ''Connection closed to {0}'' (remote_ip (sessions s self))]\<rparr>)"
  using assms by (simp add: on_close_def Let_def)

text \<open>C8, witness: client 0 of two registered clients closes twice.\<close>

theorem on_close_twice_witness:
  "0 \<in> set (CLIENTS clients_up) \<and> distinct (CLIENTS clients_up)
   \<and> fst (on_close 0 clients_up) = Inr ()
   \<and> CLIENTS (snd (on_close 0 clients_up)) = [1]
   \<and> fst (on_close 0 (snd (on_close 0 clients_up))) = Inl ValueError
   \<and> CLIENTS (snd (on_close 0 (snd (on_close 0 clients_up)))) = [1]"
  using on_close_twice [of 0 clients_up]
  by (simp add: clients_up_def server_init_def)

text \<open>
  C8, counterexample to the claim: after the first \<open>on_close\<close> has removed client 0,
  the second one raises.
\<close>

theorem on_close_twice_counterexample:
  "fst (on_close 0 clients_up) = Inr ()
   \<and> 0 \<notin> set (CLIENTS (snd (on_close 0 clients_up)))
   \<and> fst (on_close 0 (snd (on_close 0 clients_up))) = Inl ValueError"
  by (simp add: on_close_def Let_def clients_up_def server_init_def)

section \<open>What a tick leaves alone\<close>

lemma process_event_try_frame:
  "CLIENTS (snd (process_event_try State event s)) = CLIENTS s"
  "sessions (snd (process_event_try State event s)) = sessions s"
  "FROM_PRINTER (snd (process_event_try State event s)) = FROM_PRINTER s"
  "TO_PRINTER (snd (process_event_try State event s)) = TO_PRINTER s"
  "LOGGER (snd (process_event_try State event s)) = LOGGER s"
  by (simp_all add: process_event_try_def split: sum.splits)

lemma except_KeyError_frame:
  "CLIENTS (snd (except_KeyError event rs)) = CLIENTS (snd rs)"
  "sessions (snd (except_KeyError event rs)) = sessions (snd rs)"
  "FROM_PRINTER (snd (except_KeyError event rs)) = FROM_PRINTER (snd rs)"
  "TO_PRINTER (snd (except_KeyError event rs)) = TO_PRINTER (snd rs)"
  "PRINTER (snd (except_KeyError event rs)) = PRINTER (snd rs)"
  by (simp_all add: except_KeyError_def split: prod.splits)

lemma process_event_frame:
  "CLIENTS (snd (process_event State event s)) = CLIENTS s"
  "sessions (snd (process_event State event s)) = sessions s"
  "FROM_PRINTER (snd (process_event State event s)) = FROM_PRINTER s"
  "TO_PRINTER (snd (process_event State event s)) = TO_PRINTER s"
  by (simp_all add: process_event_def except_KeyError_frame process_event_try_frame)

lemma LOGGER_log_frame:
  "CLIENTS (snd (LOGGER_log level msg s)) = CLIENTS s"
  "sessions (snd (LOGGER_log level msg s)) = sessions s"
  "FROM_PRINTER (snd (LOGGER_log level msg s)) = FROM_PRINTER s"
  "PRINTER (snd (LOGGER_log level msg s)) = PRINTER s"
  by (simp_all add: LOGGER_log_def split: pyval.splits)

lemma except_TypeError_frame:
  "CLIENTS (snd (except_TypeError rs)) = CLIENTS (snd rs)"
  "sessions (snd (except_TypeError rs)) = sessions (snd rs)"
  "FROM_PRINTER (snd (except_TypeError rs)) = FROM_PRINTER (snd rs)"
  "PRINTER (snd (except_TypeError rs)) = PRINTER (snd rs)"
  by (simp_all add: except_TypeError_def split: prod.splits)

text \<open>The body of the tick on an event whose method is \<^verbatim>\<open>log\<close>.\<close>

lemma process_printer_events_try_log_frame:
  assumes "getitem event ''method'' = Inr (PStr ''log'')"
  shows "CLIENTS (snd (process_printer_events_try State (JSONText event) s)) = CLIENTS s"
    and "sessions (snd (process_printer_events_try State (JSONText event) s)) = sessions s"
    and "FROM_PRINTER (snd (process_printer_events_try State (JSONText event) s)) =
           FROM_PRINTER s"
    and "PRINTER (snd (process_printer_events_try State (JSONText event) s)) = PRINTER s"
  using assms
  by (simp_all add: process_printer_events_try_def LOGGER_log_frame split: sum.splits)

text \<open>The body of the tick on an event with any other method.\<close>

lemma process_printer_events_try_other:
  assumes "getitem event ''method'' = Inr m" and "m \<noteq> PStr ''log''"
  shows "process_printer_events_try State (JSONText event) s =
           (if \<forall>c \<in> set (CLIENTS s). ws_connection (sessions s c)
            then process_event State event (snd (broadcast_message event s))
            else (Inl WebSocketClosedError, snd (broadcast_message event s)))"
proof -
  obtain r s2 where b: "broadcast_message event s = (r, s2)"
    by (cases "broadcast_message event s")
  have r: "r = (if \<forall>c \<in> set (CLIENTS s). ws_connection (sessions s c)
                then Inr () else Inl WebSocketClosedError)"
    using broadcast_message_outcome [of event s] by (simp add: b)
  show ?thesis
    using assms by (simp add: process_printer_events_try_def b r)
qed

lemma process_printer_events_try_queue:
  "FROM_PRINTER (snd (process_printer_events_try State item s)) = FROM_PRINTER s"
proof (cases "json_loads item")
  case (Inl e)
  then show ?thesis by (simp add: process_printer_events_try_def)
next
  case (Inr event)
  then have item: "item = JSONText event" by (cases item) simp_all
  show ?thesis
  proof (cases "getitem event ''method''")
    case (Inl e)
    then show ?thesis by (simp add: process_printer_events_try_def item)
  next
    case m: (Inr m)
    show ?thesis
    proof (cases "m = PStr ''log''")
      case True
      then show ?thesis
        using m process_printer_events_try_log_frame(3) [of event State s]
        by (simp add: item)
    next
      case False
      then show ?thesis
        using process_printer_events_try_other [OF m False, of State s]
        by (simp add: item process_event_frame broadcast_message_frame)
    qed
  qed
qed

section \<open>Routing in the poll loop\<close>

text \<open>
  C5, as the code has it. A tick on a non-empty inbound queue takes exactly one item off
  it. If the item is an event whose method is \<^verbatim>\<open>log\<close>, no session is written to and
  the cache is not touched; when \<^verbatim>\<open>params\<close> carries an integer \<^verbatim>\<open>level\<close> and a \<^verbatim>\<open>msg\<close> the
  tick is one call of the logger with them. If the item is an event with another
  method, the raw event is first broadcast; when every registered session is connected,
  each has received it and the event is then passed to \<open>process_event\<close>, within the
  tick's \<^verbatim>\<open>except TypeError\<close> clause; when a send fails, the exception of the broadcast
  ends the tick and \<open>process_event\<close> is not reached.
\<close>

theorem process_printer_events_routes:
  assumes "FROM_PRINTER s = item # rest"
  shows "FROM_PRINTER (snd (process_printer_events State s)) = rest
     \<and> (item = JSONText event \<and> getitem event ''method'' = Inr (PStr ''log'') \<longrightarrow>
          CLIENTS (snd (process_printer_events State s)) = CLIENTS s \<and>
          sessions (snd (process_printer_events State s)) = sessions s \<and>
          PRINTER (snd (process_printer_events State s)) = PRINTER s \<and>
          (getitem event ''params'' = Inr p \<and> getitem p ''level'' = Inr (PInt i) \<and>
           getitem p ''msg'' = Inr msg \<longrightarrow>
             process_printer_events State s =
               (Inr (), s\<lparr>FROM_PRINTER := rest, LOGGER := LOGGER s @ [LOG_log (PInt i) msg]\<rparr>)))
     \<and> (item = JSONText event \<and> getitem event ''method'' = Inr m \<and> m \<noteq> PStr ''log'' \<longrightarrow>
          ((\<forall>c \<in> set (CLIENTS s). ws_connection (sessions s c)) \<longrightarrow>
             fst (broadcast_message event (s\<lparr>FROM_PRINTER := rest\<rparr>)) = Inr () \<and>
             (\<forall>d. written (sessions (snd (broadcast_message event (s\<lparr>FROM_PRINTER := rest\<rparr>))) d) =
                    written (sessions s d) @ replicate (count_list (CLIENTS s) d) event) \<and>
             process_printer_events State s =
               except_TypeError (process_event State event
                 (snd (broadcast_message event (s\<lparr>FROM_PRINTER := rest\<rparr>)))))
        \<and> (\<not> (\<forall>c \<in> set (CLIENTS s). ws_connection (sessions s c)) \<longrightarrow>
             process_printer_events State s =
               (Inl WebSocketClosedError,
                snd (broadcast_message event (s\<lparr>FROM_PRINTER := rest\<rparr>))) \<and>
             PRINTER (snd (process_printer_events State s)) = PRINTER s))"
proof -
  define s1 where "s1 = s\<lparr>FROM_PRINTER := rest\<rparr>"
  have tick: "process_printer_events State s =
                except_TypeError (process_printer_events_try State item s1)"
    using assms by (simp add: process_printer_events_def s1_def)
  have s1: "CLIENTS s1 = CLIENTS s" "sessions s1 = sessions s" "PRINTER s1 = PRINTER s"
    "FROM_PRINTER s1 = rest" "LOGGER s1 = LOGGER s"
    by (simp_all add: s1_def)
  have one: "FROM_PRINTER (snd (process_printer_events State s)) = rest"
    by (simp add: tick except_TypeError_frame process_printer_events_try_queue s1)
  have log: "CLIENTS (snd (process_printer_events State s)) = CLIENTS s \<and>
          sessions (snd (process_printer_events State s)) = sessions s \<and>
          PRINTER (snd (process_printer_events State s)) = PRINTER s \<and>
          (getitem event ''params'' = Inr p \<and> getitem p ''level'' = Inr (PInt i) \<and>
           getitem p ''msg'' = Inr msg \<longrightarrow>
             process_printer_events State s =
               (Inr (), s\<lparr>FROM_PRINTER := rest, LOGGER := LOGGER s @ [LOG_log (PInt i) msg]\<rparr>))"
    if h: "item = JSONText event \<and> getitem event ''method'' = Inr (PStr ''log'')"
  proof (intro conjI impI)
    note fr = process_printer_events_try_log_frame [of event State s1]
    show "CLIENTS (snd (process_printer_events State s)) = CLIENTS s"
      using h by (simp add: tick except_TypeError_frame fr s1)
    show "sessions (snd (process_printer_events State s)) = sessions s"
      using h by (simp add: tick except_TypeError_frame fr s1)
    show "PRINTER (snd (process_printer_events State s)) = PRINTER s"
      using h by (simp add: tick except_TypeError_frame fr s1)
    assume "getitem event ''params'' = Inr p \<and> getitem p ''level'' = Inr (PInt i) \<and>
           getitem p ''msg'' = Inr msg"
    then show "process_printer_events State s =
               (Inr (), s\<lparr>FROM_PRINTER := rest, LOGGER := LOGGER s @ [LOG_log (PInt i) msg]\<rparr>)"
      using h
      by (simp add: tick process_printer_events_try_def LOGGER_log_def except_TypeError_def
          s1_def)
  qed
  have other: "((\<forall>c \<in> set (CLIENTS s). ws_connection (sessions s c)) \<longrightarrow>
             fst (broadcast_message event s1) = Inr () \<and>
             (\<forall>d. written (sessions (snd (broadcast_message event s1)) d) =
                    written (sessions s d) @ replicate (count_list (CLIENTS s) d) event) \<and>
             process_printer_events State s =
               except_TypeError (process_event State event (snd (broadcast_message event s1))))
        \<and> (\<not> (\<forall>c \<in> set (CLIENTS s). ws_connection (sessions s c)) \<longrightarrow>
             process_printer_events State s =
               (Inl WebSocketClosedError, snd (broadcast_message event s1)) \<and>
             PRINTER (snd (process_printer_events State s)) = PRINTER s)"
    if h: "item = JSONText event \<and> getitem event ''method'' = Inr m \<and> m \<noteq> PStr ''log''"
  proof -
    have m: "getitem event ''method'' = Inr m" and nl: "m \<noteq> PStr ''log''" and
      item: "item = JSONText event"
      using h by simp_all
    note body = process_printer_events_try_other [OF m nl, of State s1]
    show ?thesis
    proof (intro conjI impI allI)
      assume up: "\<forall>c \<in> set (CLIENTS s). ws_connection (sessions s c)"
      then have up1: "\<forall>c \<in> set (CLIENTS s1). ws_connection (sessions s1 c)"
        by (simp add: s1)
      show "fst (broadcast_message event s1) = Inr ()"
        using up1 by (simp add: broadcast_message_outcome)
      show "process_printer_events State s =
               except_TypeError (process_event State event (snd (broadcast_message event s1)))"
        using up1 by (simp add: tick item body)
      fix d
      show "written (sessions (snd (broadcast_message event s1)) d) =
              written (sessions s d) @ replicate (count_list (CLIENTS s) d) event"
        using broadcast_message_all_up [OF up1, of event d] by (simp add: s1)
    next
      assume down: "\<not> (\<forall>c \<in> set (CLIENTS s). ws_connection (sessions s c))"
      then have down1: "\<not> (\<forall>c \<in> set (CLIENTS s1). ws_connection (sessions s1 c))"
        by (simp add: s1)
      show t: "process_printer_events State s =
               (Inl WebSocketClosedError, snd (broadcast_message event s1))"
        by (simp add: tick item body except_TypeError_def down1)
      show "PRINTER (snd (process_printer_events State s)) = PRINTER s"
        by (simp add: t broadcast_message_frame s1)
    qed
  qed
  show ?thesis
    using one log other unfolding s1_def by blast
qed

text \<open>
  C5, witness: a \<^verbatim>\<open>log\<close> event on the initial state; a \<^verbatim>\<open>temp\<close> event with two connected
  clients; the same event with the first client disconnected.
\<close>

theorem process_printer_events_routes_witness:
  "process_printer_events State_call (server_init\<lparr>FROM_PRINTER := [JSONText log_event]\<rparr>) =
     (Inr (), server_init\<lparr>LOGGER := [LOG_log (PInt 20) (PStr ''heating'')]\<rparr>)
   \<and> FROM_PRINTER (snd (process_printer_events State_call tick_clients_up)) = []
   \<and> written (sessions (snd (process_printer_events State_call tick_clients_up)) 1) =
       [temp_event]
   \<and> process_printer_events State_call tick_clients_up =
       except_TypeError (process_event State_call temp_event
         (snd (broadcast_message temp_event clients_up)))
   \<and> fst (process_printer_events State_call tick_first_down) = Inl WebSocketClosedError
   \<and> PRINTER (snd (process_printer_events State_call tick_first_down)) = PRINTER_init"
  using process_printer_events_routes [where s = "server_init\<lparr>FROM_PRINTER := [JSONText log_event]\<rparr>"
      and item = "JSONText log_event" and rest = "[]" and State = State_call
      and event = log_event
      and p = "PDict [(''level'', PInt 20), (''msg'', PStr ''heating'')]"
      and i = 20 and msg = "PStr ''heating''" and m = "PStr ''log''"]
    process_printer_events_routes [where s = tick_clients_up
      and item = "JSONText temp_event" and rest = "[]" and State = State_call
      and event = temp_event and p = PNone and i = 0 and msg = PNone and m = "PStr ''temp''"]
    process_printer_events_routes [where s = tick_first_down
      and item = "JSONText temp_event" and rest = "[]" and State = State_call
      and event = temp_event and p = PNone and i = 0 and msg = PNone and m = "PStr ''temp''"]
  by (simp add: log_event_def temp_event_def tick_clients_up_def tick_first_down_def
      clients_up_def clients_first_down_def server_init_def peer_def
      process_event_def process_event_try_def except_KeyError_def except_TypeError_def
      broadcast_message_def write_message_def)

text \<open>
  C5, counterexample to the claim: a \<^verbatim>\<open>temp\<close> event arrives while the first of two
  registered clients is disconnected. The tick ends with the exception of the broadcast:
  the connected client has not received the event, and the cache still holds the old
  temperatures, which \<open>process_event\<close> would have replaced.
\<close>

theorem process_printer_events_counterexample:
  "FROM_PRINTER tick_first_down = [JSONText temp_event]
   \<and> getitem temp_event ''method'' = Inr (PStr ''temp'')
   \<and> fst (process_printer_events State_call tick_first_down) = Inl WebSocketClosedError
   \<and> ws_connection (sessions tick_first_down 1)
   \<and> written (sessions (snd (process_printer_events State_call tick_first_down)) 1) = []
   \<and> temp (PRINTER (snd (process_printer_events State_call tick_first_down))) =
       temp (PRINTER tick_first_down)
   \<and> temp (PRINTER (snd (process_event State_call temp_event tick_first_down))) \<noteq>
       temp (PRINTER tick_first_down)"
  by (simp add: temp_event_def tick_first_down_def clients_first_down_def server_init_def
      peer_def PRINTER_init_def process_printer_events_def process_printer_events_try_def
      process_event_def process_event_try_def except_KeyError_def except_TypeError_def
      broadcast_message_def write_message_def)

section \<open>The progress counters\<close>

lemma process_event_progress:
  "progress (PRINTER (snd (process_event State event s))) =
     (if getitem event ''method'' = Inr (PStr ''progress'')
      then (case getitem event ''params'' of
              Inl e \<Rightarrow> progress (PRINTER s)
            | Inr p \<Rightarrow> p)
      else progress (PRINTER s))"
  by (simp add: process_event_def except_KeyError_frame process_event_try_def
      split: sum.splits)

text \<open>
  C9, as the code has it. The reducer stores the \<^verbatim>\<open>params\<close> of a \<^verbatim>\<open>progress\<close> event as
  they come and compares nothing. So \<^verbatim>\<open>current \<le> total\<close> once \<^verbatim>\<open>total > 0\<close> holds of the
  cache after a sequence of events when it held before and holds of the \<^verbatim>\<open>params\<close> of
  every \<^verbatim>\<open>progress\<close> event of the sequence.
\<close>

theorem process_events_progress_inv:
  assumes "progress_inv (progress (PRINTER s))"
    and "\<forall>event \<in> set events. \<forall>p.
           getitem event ''method'' = Inr (PStr ''progress'') \<longrightarrow>
           getitem event ''params'' = Inr p \<longrightarrow> progress_inv p"
  shows "progress_inv (progress (PRINTER (process_events State events s)))"
  using assms
proof (induction events arbitrary: s)
  case Nil
  then show ?case by simp
next
  case (Cons event events)
  have "progress_inv (progress (PRINTER (snd (process_event State event s))))"
    using Cons.prems by (simp add: process_event_progress split: sum.splits)
  then show ?case
    using Cons.IH [of "snd (process_event State event s)"] Cons.prems(2) by simp
qed

text \<open>
  C9, witness: a \<^verbatim>\<open>temp\<close> event, a \<^verbatim>\<open>progress\<close> event with 7 of 40 and a \<^verbatim>\<open>zchange\<close> event,
  from the initial state.
\<close>

theorem process_events_progress_inv_witness:
  "progress_inv (progress (PRINTER server_init))
   \<and> progress_inv (PDict [(''current'', PInt 7), (''total'', PInt 40)])
   \<and> progress_inv (progress (PRINTER
        (process_events State_call [temp_event, progress_event, zchange_event] server_init)))"
  using process_events_progress_inv
    [of server_init "[temp_event, progress_event, zchange_event]" State_call]
  by (simp add: progress_inv_def temp_event_def progress_event_def zchange_event_def
      server_init_def PRINTER_init_def)

text \<open>
  C9, counterexample to the claim: one \<^verbatim>\<open>progress\<close> event with \<^verbatim>\<open>current\<close> 5 and
  \<^verbatim>\<open>total\<close> 3, from the initial state.
\<close>

theorem process_events_progress_counterexample:
  "progress (PRINTER (process_events State_call [overrun_progress_event] server_init)) =
     PDict [(''current'', PInt 5), (''total'', PInt 3)]
   \<and> \<not> progress_inv
         (progress (PRINTER (process_events State_call [overrun_progress_event] server_init)))"
  by (simp add: progress_inv_def overrun_progress_event_def process_event_def
      process_event_try_def except_KeyError_def)

end
